theory Spec2Isabelle
  imports Main
begin

section \<open>The FAC data integration pipeline (run_pipeline.py)\<close>

text \<open>
  A shallow embedding of \<^verbatim>\<open>FACDataPipeline\<close>: configuration loading and validation,
  the paginated reader \<^verbatim>\<open>fetch_data_stream\<close>, the loader \<^verbatim>\<open>process_source\<close>, and
  \<^verbatim>\<open>merge_data\<close> with its \<^verbatim>\<open>finally\<close> clean-up. Exceptions are values of type
  \<open>error\<close>; everything the program mutates (the staging database, the file system,
  the requests sent, the progress log) is a field of the record \<open>world\<close> that every
  operation takes and returns.
\<close>

subsection \<open>Exceptions\<close>

datatype error =
    ValueError string          \<comment> \<open>raised by \<^verbatim>\<open>_validate_config\<close>\<close>
  | KeyError string            \<comment> \<open>a dictionary subscript on a missing key\<close>
  | TypeError                  \<comment> \<open>\<^verbatim>\<open>Path(v)\<close> on a value that is not text\<close>
  | IndexError                 \<comment> \<open>\<^verbatim>\<open>tables[0]\<close> on an empty list\<close>
  | FileNotFoundError string   \<comment> \<open>\<^verbatim>\<open>open\<close> or \<^verbatim>\<open>mkdir\<close> on a missing path\<close>
  | RequestException           \<comment> \<open>\<^verbatim>\<open>requests.get\<close>, \<^verbatim>\<open>raise_for_status\<close> or \<^verbatim>\<open>response.json\<close> raised\<close>
  | ParserException            \<comment> \<open>the staging engine: the statement is not in its grammar\<close>
  | BinderException            \<comment> \<open>the staging engine: column counts do not fit\<close>
  | CatalogException           \<comment> \<open>the staging engine: no such table, no such pragma\<close>
  | InvalidInputException      \<comment> \<open>the staging engine: a data frame with no column\<close>
  | IOException                \<comment> \<open>the staging engine: the export file cannot be written\<close>
  | OSError string             \<comment> \<open>\<^verbatim>\<open>unlink\<close>, \<^verbatim>\<open>rmdir\<close> or \<^verbatim>\<open>mkdir\<close> failed on this path\<close>

subsection \<open>Values, records and data frames\<close>

text \<open>
  A scalar of the YAML configuration, and a cell of a data frame. \<open>NaN\<close> is what pandas
  puts where a record has no value for a column, \<open>Null\<close> is JSON's null (Python's
  \<^verbatim>\<open>None\<close>). Floating-point cells are outside the model, and with them the promotion of an
  integer column that has holes to a column of floats.
\<close>

datatype yaml = YNull | YBool bool | YInt int | YStr string

datatype cell = NaN | Null | IntV int | TextV string

type_synonym json_record = "(string \<times> cell) list"

record dataframe =
  df_columns :: "string list"
  df_rows :: "cell list list"

text \<open>Python's \<^verbatim>\<open>str\<close> on an integer: its decimal digits, with a sign.\<close>

definition digit_char :: "nat \<Rightarrow> char" where
  "digit_char d = ''0123456789'' ! d"

function str_of_nat :: "nat \<Rightarrow> string" where
  "str_of_nat n = (if n < 10 then [digit_char n] else str_of_nat (n div 10) @ [digit_char (n mod 10)])"
  by pat_completeness auto
termination
  by (relation "measure id") auto

declare str_of_nat.simps [simp del]

definition str_of_int :: "int \<Rightarrow> string" where
  "str_of_int i = (if i < 0 then CHR ''-'' # str_of_nat (nat (- i)) else str_of_nat (nat i))"

text \<open>
  \<^verbatim>\<open>astype(str)\<close> applies \<^verbatim>\<open>str\<close> to every value of the column: text stays as it is,
  \<^verbatim>\<open>None\<close> becomes \<^verbatim>\<open>'None'\<close> and a hole becomes \<^verbatim>\<open>'nan'\<close>.
\<close>

fun py_str :: "cell \<Rightarrow> string" where
  "py_str NaN = ''nan''"
| "py_str Null = ''None''"
| "py_str (IntV i) = str_of_int i"
| "py_str (TextV s) = s"

text \<open>
  \<^verbatim>\<open>pd.DataFrame(records)\<close>: the columns are the keys of the records in the order in
  which they are first seen; a record without a key has a hole there. A JSON object that
  repeats a key keeps the key's first position and its last value, as Python's
  dictionaries do.
\<close>

fun first_seen :: "'a list \<Rightarrow> 'a list" where
  "first_seen [] = []"
| "first_seen (x # xs) = x # filter (\<lambda>y. y \<noteq> x) (first_seen xs)"

definition field :: "json_record \<Rightarrow> string \<Rightarrow> cell" where
  "field r c = (case map_of (rev r) c of None \<Rightarrow> NaN | Some v \<Rightarrow> v)"

definition DataFrame :: "json_record list \<Rightarrow> dataframe" where
  "DataFrame rs =
     (let cols = first_seen (concat (map (map fst) rs))
      in \<lparr>df_columns = cols, df_rows = map (\<lambda>r. map (field r) cols) rs\<rparr>)"

text \<open>\<^verbatim>\<open>df[c] = df[c].astype(str)\<close>, for a column name \<open>c\<close> of the frame.\<close>

definition astype_str :: "string \<Rightarrow> dataframe \<Rightarrow> dataframe" where
  "astype_str c df =
     df\<lparr>df_rows := map (\<lambda>row. map (\<lambda>(k, v). if k = c then TextV (py_str v) else v)
                                   (zip (df_columns df) row)) (df_rows df)\<rparr>"

text \<open>The values of column \<open>c\<close>, one per row.\<close>

definition column :: "string \<Rightarrow> dataframe \<Rightarrow> cell list" where
  "column c df = map (\<lambda>row. field (zip (df_columns df) row) c) (df_rows df)"

subsection \<open>Configuration\<close>

text \<open>
  \<^verbatim>\<open>config.yaml\<close> as \<^verbatim>\<open>yaml.safe_load\<close> returns it: a dictionary that may or may not have
  the keys \<^verbatim>\<open>settings\<close> and \<^verbatim>\<open>sources\<close>. A source has a name, a URL and the two
  pagination parameters \<^verbatim>\<open>from\<close> and \<^verbatim>\<open>size\<close>.
\<close>

record source_config =
  src_name :: string
  src_url :: string
  params_from :: int
  params_size :: int

record config =
  cfg_settings :: "(string \<times> yaml) list option"
  cfg_sources :: "source_config list option"

definition required_settings :: "string list" where
  "required_settings = [''output_filename'', ''download_directory'', ''primary_join_key'']"

text \<open>Python's \<^verbatim>\<open>repr\<close> of a list of plain strings, as the f-string of the message prints it.\<close>

definition quoted :: "string \<Rightarrow> string" where
  "quoted s = [CHR 0x27] @ s @ [CHR 0x27]"

fun comma_separated :: "string list \<Rightarrow> string" where
  "comma_separated [] = []"
| "comma_separated [x] = x"
| "comma_separated (x # y # ys) = x @ '', '' @ comma_separated (y # ys)"

definition missing_settings_message :: string where
  "missing_settings_message =
     ''Missing required settings: ['' @ comma_separated (map quoted required_settings) @ '']''"

text \<open>
  \<^verbatim>\<open>_validate_config\<close>: \<^verbatim>\<open>config['settings']\<close> is subscripted for the first key tested, so a
  configuration with no settings at all raises \<^verbatim>\<open>KeyError\<close>; otherwise a required key that
  is not in the settings raises \<^verbatim>\<open>ValueError\<close>. Only the presence of the key is tested.
\<close>

definition validate_config :: "config \<Rightarrow> error + unit" where
  "validate_config cfg =
     (case cfg_settings cfg of
        None \<Rightarrow> Inl (KeyError ''settings'')
      | Some s \<Rightarrow>
          if list_all (\<lambda>key. key \<in> fst ` set s) required_settings then Inr ()
          else Inl (ValueError missing_settings_message))"

text \<open>\<^verbatim>\<open>config['settings'][key]\<close>.\<close>

definition setting :: "config \<Rightarrow> string \<Rightarrow> error + yaml" where
  "setting cfg key =
     (case cfg_settings cfg of
        None \<Rightarrow> Inl (KeyError ''settings'')
      | Some s \<Rightarrow> (case map_of (rev s) key of None \<Rightarrow> Inl (KeyError key) | Some v \<Rightarrow> Inr v))"

subsection \<open>The statements sent to the staging engine\<close>

text \<open>
  The SQL text that \<^verbatim>\<open>merge_data\<close> builds, as the sequence of its tokens. Table names
  and the join key are interpolated into the text as they are; they are taken to be
  plain identifiers.
\<close>

datatype token =
    T_CREATE | T_TABLE | T_AS | T_WITH | T_SELECT | T_STAR | T_FROM
  | T_LEFT | T_JOIN | T_USING | T_LPAREN | T_RPAREN | Ident string

text \<open>
  The part of the engine's grammar that these statements live in:
  \<^verbatim>\<open>CREATE TABLE t AS [WITH c AS ( select )] select\<close>, where a select is
  \<^verbatim>\<open>SELECT * FROM t\<close> followed by any number of \<^verbatim>\<open>LEFT JOIN u USING ( k )\<close>.
  A common table expression is a prefix of a query: the grammar wants the query itself
  after it.
\<close>

datatype select = SelectStar string "(string \<times> string) list"

datatype statement = CreateTableAs string "(string \<times> select) option" select

definition parse_join :: "token list \<Rightarrow> ((string \<times> string) \<times> token list) option" where
  "parse_join ts =
     (case ts of
        T_LEFT # T_JOIN # Ident t # T_USING # T_LPAREN # Ident k # T_RPAREN # rest \<Rightarrow> Some ((t, k), rest)
      | _ \<Rightarrow> None)"

function parse_joins :: "token list \<Rightarrow> (string \<times> string) list \<times> token list" where
  "parse_joins ts =
     (case parse_join ts of
        None \<Rightarrow> ([], ts)
      | Some (j, rest) \<Rightarrow> (case parse_joins rest of (js, rest') \<Rightarrow> (j # js, rest')))"
  by pat_completeness auto
termination
  by (relation "measure length") (auto simp: parse_join_def split: list.splits token.splits)

declare parse_joins.simps [simp del]

definition parse_select :: "token list \<Rightarrow> (select \<times> token list) option" where
  "parse_select ts =
     (case ts of
        T_SELECT # T_STAR # T_FROM # Ident t # rest \<Rightarrow>
          (case parse_joins rest of (js, rest') \<Rightarrow> Some (SelectStar t js, rest'))
      | _ \<Rightarrow> None)"

definition parse_query :: "token list \<Rightarrow> ((string \<times> select) option \<times> select) option" where
  "parse_query ts =
     (case ts of
        T_WITH # Ident c # T_AS # T_LPAREN # rest \<Rightarrow>
          (case parse_select rest of
             Some (q, T_RPAREN # rest') \<Rightarrow>
               (case parse_select rest' of
                  Some (body, []) \<Rightarrow> Some (Some (c, q), body)
                | _ \<Rightarrow> None)
           | _ \<Rightarrow> None)
      | _ \<Rightarrow>
          (case parse_select ts of
             Some (body, []) \<Rightarrow> Some (None, body)
           | _ \<Rightarrow> None))"

definition parse_statement :: "token list \<Rightarrow> statement option" where
  "parse_statement ts =
     (case ts of
        T_CREATE # T_TABLE # Ident t # T_AS # rest \<Rightarrow>
          (case parse_query rest of
             Some (cte, body) \<Rightarrow> Some (CreateTableAs t cte body)
           | None \<Rightarrow> None)
      | _ \<Rightarrow> None)"

subsection \<open>The world\<close>

text \<open>
  The remote API answers a request (URL, \<^verbatim>\<open>from\<close>, \<^verbatim>\<open>size\<close>) either with a failure
  (transport error, error status, body that is not a JSON object) or with the list found
  under \<^verbatim>\<open>results\<close>; a missing, null or empty \<^verbatim>\<open>results\<close> is the empty list.
\<close>

datatype response = Failed | Results "json_record list"

record world =
  net :: "string \<Rightarrow> int \<Rightarrow> int \<Rightarrow> response"  \<comment> \<open>the remote API\<close>
  config_files :: "string \<rightharpoonup> config"              \<comment> \<open>the YAML files, parsed\<close>
  pragmas :: "string set"                            \<comment> \<open>the pragmas the staging engine knows\<close>
  files :: "string set"                              \<comment> \<open>paths of the regular files\<close>
  dirs :: "string set"                               \<comment> \<open>paths of the directories\<close>
  tables :: "string \<rightharpoonup> dataframe"                  \<comment> \<open>the staging database's catalog\<close>
  engine :: "statement \<Rightarrow> (string \<rightharpoonup> dataframe) \<Rightarrow> error + (string \<rightharpoonup> dataframe)"
    \<comment> \<open>what the staging engine does with a statement of its grammar\<close>
  requests :: "(string \<times> int \<times> int) list"             \<comment> \<open>the requests sent, oldest first\<close>
  progress :: "(string \<times> nat) list"                   \<comment> \<open>the running totals logged, oldest first\<close>

text \<open>The result of an operation: an exception or a value, and the world it leaves.\<close>

type_synonym 'a result = "(error + 'a) \<times> world"

subsection \<open>Paths\<close>

definition parent :: "string \<Rightarrow> string" where
  "parent p = (if CHR ''/'' \<in> set p then rev (tl (dropWhile (\<lambda>c. c \<noteq> CHR ''/'') (rev p))) else ''.'')"

definition basename :: "string \<Rightarrow> string" where
  "basename p = rev (takeWhile (\<lambda>c. c \<noteq> CHR ''/'') (rev p))"

text \<open>\<^verbatim>\<open>temp_dir / name\<close>.\<close>

definition joinpath :: "string \<Rightarrow> string \<Rightarrow> string" where
  "joinpath d n = d @ ''/'' @ n"

text \<open>The glob pattern \<^verbatim>\<open>*.csv\<close> on a file name.\<close>

definition is_csv :: "string \<Rightarrow> bool" where
  "is_csv p = (let b = basename p in 4 \<le> length b \<and> drop (length b - 4) b = ''.csv'')"

subsection \<open>Initialisation\<close>

record pipeline =
  config :: config
  temp_dir :: string
  db_path :: string

text \<open>\<^verbatim>\<open>_load_config\<close>: open the file, parse it, validate it.\<close>

definition load_config :: "string \<Rightarrow> world \<Rightarrow> config result" where
  "load_config config_path w =
     (case config_files w config_path of
        None \<Rightarrow> (Inl (FileNotFoundError config_path), w)
      | Some cfg \<Rightarrow>
          (case validate_config cfg of
             Inl e \<Rightarrow> (Inl e, w)
           | Inr _ \<Rightarrow> (Inr cfg, w)))"

text \<open>
  \<^verbatim>\<open>Path.mkdir(exist_ok=True)\<close>: nothing to do when the directory is there; an error when
  the path is a regular file or its parent is missing.
\<close>

definition mkdir_exist_ok :: "string \<Rightarrow> world \<Rightarrow> unit result" where
  "mkdir_exist_ok d w =
     (if d \<in> dirs w then (Inr (), w)
      else if d \<in> files w then (Inl (OSError d), w)
      else if parent d \<noteq> ''.'' \<and> parent d \<notin> dirs w then (Inl (FileNotFoundError d), w)
      else (Inr (), w\<lparr>dirs := insert d (dirs w)\<rparr>))"

text \<open>\<^verbatim>\<open>conn.execute("PRAGMA ...")\<close>.\<close>

definition execute_pragma :: "string \<Rightarrow> world \<Rightarrow> unit result" where
  "execute_pragma name w = (if name \<in> pragmas w then (Inr (), w) else (Inl CatalogException, w))"

text \<open>
  \<^verbatim>\<open>__init__\<close>. \<^verbatim>\<open>duckdb.connect\<close> opens the database file under the working directory
  and creates it when it is not there; the catalog \<open>tables\<close> is what that file holds.
\<close>

definition init :: "string \<Rightarrow> world \<Rightarrow> pipeline result" where
  "init config_path w =
     (case load_config config_path w of
        (Inl e, w1) \<Rightarrow> (Inl e, w1)
      | (Inr cfg, w1) \<Rightarrow>
          (case setting cfg ''download_directory'' of
             Inl e \<Rightarrow> (Inl e, w1)
           | Inr (YStr d) \<Rightarrow>
               (case mkdir_exist_ok d w1 of
                  (Inl e, w2) \<Rightarrow> (Inl e, w2)
                | (Inr _, w2) \<Rightarrow>
                    (let p = \<lparr>config = cfg, temp_dir = d, db_path = joinpath d ''temp.duckdb''\<rparr>;
                         w3 = w2\<lparr>files := insert (db_path p) (files w2)\<rparr>
                     in case execute_pragma ''enable_compression'' w3 of
                          (Inl e, w4) \<Rightarrow> (Inl e, w4)
                        | (Inr _, w4) \<Rightarrow>
                            (case execute_pragma ''memory_limit'' w4 of
                               (Inl e, w5) \<Rightarrow> (Inl e, w5)
                             | (Inr _, w5) \<Rightarrow> (Inr p, w5))))
           | Inr _ \<Rightarrow> (Inl TypeError, w1)))"

subsection \<open>The paginated reader\<close>

text \<open>
  \<^verbatim>\<open>fetch_data_stream\<close> is a generator. One pass of its loop, from the request to the
  \<^verbatim>\<open>yield\<close>, with \<^verbatim>\<open>params['from']\<close> at \<open>frm\<close>: the time-out is read from the settings as
  the request is built; an empty answer ends the generator; otherwise the records become
  a data frame, and the column named \<^verbatim>\<open>report_id\<close>, when the frame has one, is converted
  to text. The name is the literal of the source, not the configured join key.
\<close>

datatype 'a step = Stop | Raise error | Yield 'a

definition ensure_report_id_str :: "dataframe \<Rightarrow> dataframe" where
  "ensure_report_id_str df =
     (if ''report_id'' \<in> set (df_columns df) then astype_str ''report_id'' df else df)"

definition fetch_page :: "pipeline \<Rightarrow> source_config \<Rightarrow> int \<Rightarrow> world \<Rightarrow> dataframe step \<times> world" where
  "fetch_page p source frm w =
     (case setting (config p) ''api_timeout_seconds'' of
        Inl e \<Rightarrow> (Raise e, w)
      | Inr _ \<Rightarrow>
          (let w1 = w\<lparr>requests := requests w @ [(src_url source, frm, params_size source)]\<rparr>
           in case net w (src_url source) frm (params_size source) of
                Failed \<Rightarrow> (Raise RequestException, w1)
              | Results rs \<Rightarrow>
                  if rs = [] then (Stop, w1)
                  else (Yield (ensure_report_id_str (DataFrame rs)), w1)))"


subsection \<open>The loader\<close>

text \<open>
  The three statements of \<^verbatim>\<open>process_source\<close>. \<^verbatim>\<open>SELECT * FROM chunk\<close> reads the data frame
  of the loop; the engine refuses a frame with no column. \<^verbatim>\<open>INSERT INTO t SELECT *\<close>
  matches columns by position: it wants as many values as the table has columns, and
  looks at no name. Column types and the engine's casts are not modelled.
\<close>

definition drop_table_if_exists :: "string \<Rightarrow> world \<Rightarrow> world" where
  "drop_table_if_exists t w = w\<lparr>tables := (tables w)(t := None)\<rparr>"

definition create_table_as_chunk :: "string \<Rightarrow> dataframe \<Rightarrow> world \<Rightarrow> unit result" where
  "create_table_as_chunk t chunk w =
     (if df_columns chunk = [] then (Inl InvalidInputException, w)
      else if tables w t \<noteq> None then (Inl CatalogException, w)
      else (Inr (), w\<lparr>tables := (tables w)(t \<mapsto> chunk)\<rparr>))"

definition insert_into_from_chunk :: "string \<Rightarrow> dataframe \<Rightarrow> world \<Rightarrow> unit result" where
  "insert_into_from_chunk t chunk w =
     (if df_columns chunk = [] then (Inl InvalidInputException, w)
      else
        (case tables w t of
           None \<Rightarrow> (Inl CatalogException, w)
         | Some tab \<Rightarrow>
             if length (df_columns chunk) \<noteq> length (df_columns tab) then (Inl BinderException, w)
             else (Inr (), w\<lparr>tables := (tables w)(t \<mapsto> tab\<lparr>df_rows := df_rows tab @ df_rows chunk\<rparr>)\<rparr>)))"

text \<open>The body of the loop of \<^verbatim>\<open>process_source\<close>, up to the statement executed.\<close>

definition load_chunk :: "string \<Rightarrow> bool \<Rightarrow> dataframe \<Rightarrow> world \<Rightarrow> unit result" where
  "load_chunk table_name first_chunk chunk w =
     (if first_chunk then create_table_as_chunk table_name chunk (drop_table_if_exists table_name w)
      else insert_into_from_chunk table_name chunk w)"

text \<open>
  The loop of \<^verbatim>\<open>process_source\<close> over the generator: each batch is loaded before the
  generator is resumed, so a failed statement ends the loop before the next request.
  The result is \<^verbatim>\<open>rows_processed\<close>; every pass logs the running total.
\<close>

fun process_chunks ::
  "nat \<Rightarrow> pipeline \<Rightarrow> source_config \<Rightarrow> int \<Rightarrow> bool \<Rightarrow> nat \<Rightarrow> world \<Rightarrow> nat result option" where
  "process_chunks 0 p source frm first_chunk rows_processed w = None"
| "process_chunks (Suc fuel) p source frm first_chunk rows_processed w =
     (case fetch_page p source frm w of
        (Raise e, w1) \<Rightarrow> Some (Inl e, w1)
      | (Stop, w1) \<Rightarrow> Some (Inr rows_processed, w1)
      | (Yield chunk, w1) \<Rightarrow>
          (case load_chunk (src_name source) first_chunk chunk w1 of
             (Inl e, w2) \<Rightarrow> Some (Inl e, w2)
           | (Inr _, w2) \<Rightarrow>
               (let rows = rows_processed + length (df_rows chunk);
                    w3 = w2\<lparr>progress := progress w2 @ [(src_name source, rows)]\<rparr>
                in if int (length (df_rows chunk)) < params_size source then Some (Inr rows, w3)
                   else process_chunks fuel p source (frm + params_size source) False rows w3)))"

definition process_source :: "nat \<Rightarrow> pipeline \<Rightarrow> source_config \<Rightarrow> world \<Rightarrow> nat result option" where
  "process_source fuel p source w = process_chunks fuel p source (params_from source) True 0 w"

subsection \<open>The merge\<close>

text \<open>How an f-string prints a scalar of the configuration.\<close>

fun yaml_str :: "yaml \<Rightarrow> string" where
  "yaml_str YNull = ''None''"
| "yaml_str (YBool b) = (if b then ''True'' else ''False'')"
| "yaml_str (YInt i) = str_of_int i"
| "yaml_str (YStr s) = s"

text \<open>
  The text of the merge statement, as the source concatenates it: the head up to
  \<^verbatim>\<open>SELECT * FROM {tables[0]}\<close>, one \<^verbatim>\<open>LEFT JOIN {table} USING ({primary_key})\<close> for every
  further table, and the closing parenthesis of the common table expression. That is
  where the text ends.
\<close>

definition join_clause :: "string \<Rightarrow> string \<Rightarrow> token list" where
  "join_clause primary_key t = [T_LEFT, T_JOIN, Ident t, T_USING, T_LPAREN, Ident primary_key, T_RPAREN]"

definition merge_query :: "string \<Rightarrow> string list \<Rightarrow> string \<Rightarrow> error + token list" where
  "merge_query merged_table tabs primary_key =
     (case tabs of
        [] \<Rightarrow> Inl IndexError
      | t0 # rest \<Rightarrow>
          Inr ([T_CREATE, T_TABLE, Ident merged_table, T_AS,
                T_WITH, Ident ''incremental_join'', T_AS, T_LPAREN,
                T_SELECT, T_STAR, T_FROM, Ident t0]
               @ concat (map (join_clause primary_key) rest)
               @ [T_RPAREN]))"

text \<open>\<^verbatim>\<open>conn.execute(query)\<close>: the engine parses the text, then runs the statement.\<close>

definition execute_query :: "token list \<Rightarrow> world \<Rightarrow> unit result" where
  "execute_query q w =
     (case parse_statement q of
        None \<Rightarrow> (Inl ParserException, w)
      | Some st \<Rightarrow>
          (case engine w st (tables w) of
             Inl e \<Rightarrow> (Inl e, w)
           | Inr tabs \<Rightarrow> (Inr (), w\<lparr>tables := tabs\<rparr>)))"

text \<open>\<^verbatim>\<open>COPY (SELECT * FROM merged_data) TO output_path\<close>.\<close>

definition copy_to :: "string \<Rightarrow> string \<Rightarrow> world \<Rightarrow> unit result" where
  "copy_to t output_path w =
     (if tables w t = None then (Inl CatalogException, w)
      else if output_path \<in> dirs w \<or> (parent output_path \<noteq> ''.'' \<and> parent output_path \<notin> dirs w)
      then (Inl IOException, w)
      else (Inr (), w\<lparr>files := insert output_path (files w)\<rparr>))"

text \<open>The \<^verbatim>\<open>for\<close> loop over the sources.\<close>

fun process_sources :: "nat \<Rightarrow> pipeline \<Rightarrow> source_config list \<Rightarrow> world \<Rightarrow> unit result option" where
  "process_sources fuel p [] w = Some (Inr (), w)"
| "process_sources fuel p (source # sources) w =
     (case process_source fuel p source w of
        None \<Rightarrow> None
      | Some (Inl e, w1) \<Rightarrow> Some (Inl e, w1)
      | Some (Inr _, w1) \<Rightarrow> process_sources fuel p sources w1)"

text \<open>The \<^verbatim>\<open>try\<close> block of \<^verbatim>\<open>merge_data\<close>; its \<^verbatim>\<open>except\<close> clause logs and raises again.\<close>

definition merge_try :: "nat \<Rightarrow> pipeline \<Rightarrow> world \<Rightarrow> unit result option" where
  "merge_try fuel p w =
     (case cfg_sources (config p) of
        None \<Rightarrow> Some (Inl (KeyError ''sources''), w)
      | Some sources \<Rightarrow>
          (case process_sources fuel p sources w of
             None \<Rightarrow> None
           | Some (Inl e, w1) \<Rightarrow> Some (Inl e, w1)
           | Some (Inr _, w1) \<Rightarrow>
               (case setting (config p) ''primary_join_key'' of
                  Inl e \<Rightarrow> Some (Inl e, w1)
                | Inr primary_key \<Rightarrow>
                    (let w2 = drop_table_if_exists ''merged_data'' w1
                     in case merge_query ''merged_data'' (map src_name sources) (yaml_str primary_key) of
                          Inl e \<Rightarrow> Some (Inl e, w2)
                        | Inr query \<Rightarrow>
                            (case execute_query query w2 of
                               (Inl e, w3) \<Rightarrow> Some (Inl e, w3)
                             | (Inr _, w3) \<Rightarrow>
                                 (case setting (config p) ''output_filename'' of
                                    Inl e \<Rightarrow> Some (Inl e, w3)
                                  | Inr (YStr output_path) \<Rightarrow> Some (copy_to ''merged_data'' output_path w3)
                                  | Inr _ \<Rightarrow> Some (Inl TypeError, w3)))))))"

subsection \<open>Clean-up\<close>

text \<open>Python's truth value of a scalar.\<close>

fun truthy :: "yaml \<Rightarrow> bool" where
  "truthy YNull = False"
| "truthy (YBool b) = b"
| "truthy (YInt i) = (i \<noteq> 0)"
| "truthy (YStr s) = (s \<noteq> [])"

text \<open>\<^verbatim>\<open>self.config['settings'].get('cleanup_temp_files', True)\<close>.\<close>

definition cleanup_enabled :: "pipeline \<Rightarrow> error + bool" where
  "cleanup_enabled p =
     (case cfg_settings (config p) of
        None \<Rightarrow> Inl (KeyError ''settings'')
      | Some s \<Rightarrow> (case map_of (rev s) ''cleanup_temp_files'' of None \<Rightarrow> Inr True | Some v \<Rightarrow> Inr (truthy v)))"

text \<open>What is directly inside a directory, and what \<^verbatim>\<open>glob('*.csv')\<close> finds there.\<close>

definition entries :: "string \<Rightarrow> world \<Rightarrow> string set" where
  "entries d w = {x \<in> files w \<union> dirs w. parent x = d}"

definition csv_entries :: "string \<Rightarrow> world \<Rightarrow> string set" where
  "csv_entries d w = {x \<in> entries d w. is_csv x}"

text \<open>
  The \<^verbatim>\<open>finally\<close> block. The database file is unlinked when the path exists, then every
  entry of the working directory that matches \<^verbatim>\<open>*.csv\<close>, then the directory is removed
  with \<^verbatim>\<open>rmdir\<close>, which raises when the directory is not empty. \<^verbatim>\<open>unlink\<close> raises on a
  directory; the glob is taken to list the regular files first. Unlinking the database
  file takes its catalog with it.
\<close>

definition unlink_db :: "pipeline \<Rightarrow> world \<Rightarrow> unit result" where
  "unlink_db p w =
     (if db_path p \<in> files w then (Inr (), w\<lparr>files := files w - {db_path p}, tables := Map.empty\<rparr>)
      else if db_path p \<in> dirs w then (Inl (OSError (db_path p)), w)
      else (Inr (), w))"

definition unlink_csv :: "pipeline \<Rightarrow> world \<Rightarrow> unit result" where
  "unlink_csv p w =
     (let w1 = w\<lparr>files := files w - csv_entries (temp_dir p) w\<rparr>
      in if csv_entries (temp_dir p) w \<inter> dirs w = {} then (Inr (), w1)
         else (Inl (OSError (temp_dir p)), w1))"

definition rmdir_temp :: "pipeline \<Rightarrow> world \<Rightarrow> unit result" where
  "rmdir_temp p w =
     (if temp_dir p \<in> dirs w then
        (if entries (temp_dir p) w = {} then (Inr (), w\<lparr>dirs := dirs w - {temp_dir p}\<rparr>)
         else (Inl (OSError (temp_dir p)), w))
      else if temp_dir p \<in> files w then (Inl (OSError (temp_dir p)), w)
      else (Inr (), w))"

definition cleanup :: "pipeline \<Rightarrow> world \<Rightarrow> unit result" where
  "cleanup p w =
     (case cleanup_enabled p of
        Inl e \<Rightarrow> (Inl e, w)
      | Inr False \<Rightarrow> (Inr (), w)
      | Inr True \<Rightarrow>
          (case unlink_db p w of
             (Inl e, w1) \<Rightarrow> (Inl e, w1)
           | (Inr _, w1) \<Rightarrow>
               (case unlink_csv p w1 of
                  (Inl e, w2) \<Rightarrow> (Inl e, w2)
                | (Inr _, w2) \<Rightarrow> rmdir_temp p w2)))"



section \<open>Notions used in the statements\<close>

text \<open>Whether a configuration has a setting: \<^verbatim>\<open>key in config['settings']\<close>, false without settings.\<close>

definition has_setting :: "config \<Rightarrow> string \<Rightarrow> bool" where
  "has_setting cfg key = (case cfg_settings cfg of None \<Rightarrow> False | Some s \<Rightarrow> key \<in> fst ` set s)"

text \<open>The number of rows of a frame or a relation, and of the relation of a given name.\<close>

definition nrows :: "dataframe \<Rightarrow> nat" where
  "nrows df = length (df_rows df)"

definition row_count :: "world \<Rightarrow> string \<Rightarrow> nat option" where
  "row_count w t = map_option nrows (tables w t)"


text \<open>The first \<open>n\<close> offsets of a pagination that starts at \<open>frm\<close> and moves by \<open>sz\<close>.\<close>

fun offsets :: "int \<Rightarrow> int \<Rightarrow> nat \<Rightarrow> int list" where
  "offsets frm sz 0 = []"
| "offsets frm sz (Suc n) = frm # offsets (frm + sz) sz n"



text \<open>The batches a list of pages becomes: an empty page yields no batch.\<close>

definition batches_of :: "json_record list list \<Rightarrow> dataframe list" where
  "batches_of pages = map (\<lambda>rs. ensure_report_id_str (DataFrame rs)) (filter (\<lambda>rs. rs \<noteq> []) pages)"

fun is_text :: "cell \<Rightarrow> bool" where
  "is_text (TextV s) = True"
| "is_text v = False"

section \<open>Concrete runs\<close>

text \<open>
  A world with nothing on disk and an empty staging database, for the configuration
  files and the remote API given.
\<close>

definition quiet_world :: "(string \<rightharpoonup> config) \<Rightarrow> (string \<Rightarrow> int \<Rightarrow> int \<Rightarrow> response) \<Rightarrow> world" where
  "quiet_world cfgs api =
     \<lparr>net = api, config_files = cfgs, pragmas = {''enable_compression'', ''memory_limit''},
      files = {}, dirs = {}, tables = Map.empty, engine = (\<lambda>st tabs. Inr tabs),
      requests = [], progress = []\<rparr>"

text \<open>The configuration of \<^verbatim>\<open>test_config_validation\<close>: only the output file is set.\<close>

definition invalid_config :: config where
  "invalid_config = \<lparr>cfg_settings = Some [(''output_filename'', YStr ''test.csv'')], cfg_sources = None\<rparr>"

text \<open>
  A configuration with every setting the pipeline reads, two sources \<^verbatim>\<open>general\<close> (the
  anchor) and \<^verbatim>\<open>findings\<close>, and a remote API that has one page for each.
\<close>

definition run_settings :: "string \<Rightarrow> bool \<Rightarrow> (string \<times> yaml) list" where
  "run_settings key cleanup_flag =
     [(''output_filename'', YStr ''merged.csv.gz''), (''download_directory'', YStr ''downloads''),
      (''primary_join_key'', YStr key), (''api_timeout_seconds'', YInt 30),
      (''cleanup_temp_files'', YBool cleanup_flag)]"

definition two_sources :: "int \<Rightarrow> source_config list" where
  "two_sources n =
     [\<lparr>src_name = ''general'', src_url = ''https://api/general'', params_from = 0, params_size = n\<rparr>,
      \<lparr>src_name = ''findings'', src_url = ''https://api/findings'', params_from = 0, params_size = n\<rparr>]"

definition first_page :: "json_record list \<Rightarrow> json_record list \<Rightarrow> string \<Rightarrow> int \<Rightarrow> int \<Rightarrow> response" where
  "first_page general findings u frm n =
     (if frm \<noteq> 0 then Results []
      else if u = ''https://api/general'' then Results general
      else if u = ''https://api/findings'' then Results findings
      else Failed)"

definition anchor_abc :: "json_record list" where
  "anchor_abc =
     [[(''report_id'', TextV ''A''), (''auditee'', TextV ''a1'')],
      [(''report_id'', TextV ''B''), (''auditee'', TextV ''a2'')],
      [(''report_id'', TextV ''C''), (''auditee'', TextV ''a3'')]]"

definition findings_b :: "json_record list" where
  "findings_b = [[(''report_id'', TextV ''B''), (''finding'', TextV ''f1'')]]"

text \<open>
  The pipeline as \<^verbatim>\<open>__init__\<close> leaves it for that configuration, and the world it is in:
  the working directory with the database file in it.
\<close>

definition two_source_config :: "string \<Rightarrow> bool \<Rightarrow> int \<Rightarrow> config" where
  "two_source_config key cleanup_flag n =
     \<lparr>cfg_settings = Some (run_settings key cleanup_flag), cfg_sources = Some (two_sources n)\<rparr>"




text \<open>
  The run of the left-join example: the anchor has the keys A, B and C, the second source
  only B. Clean-up is off, so that the staged relations can be looked at afterwards.
\<close>

definition left_join_world :: world where
  "left_join_world =
     quiet_world [''config.yaml'' \<mapsto> two_source_config ''report_id'' False 10]
       (first_page anchor_abc findings_b)"

section \<open>Properties\<close>

subsection \<open>Initialisation\<close>

lemma validate_config_missing:
  "key \<in> set required_settings \<Longrightarrow> \<not> has_setting cfg key \<Longrightarrow>
   validate_config cfg =
     Inl (if cfg_settings cfg = None then KeyError ''settings'' else ValueError missing_settings_message)"
  by (auto simp: validate_config_def has_setting_def list_all_iff split: option.splits)

text \<open>
  Claim C7. When the configuration lacks the output file name, the working directory or
  the join key, \<^verbatim>\<open>__init__\<close> raises before it touches anything: the exception is the
  \<^verbatim>\<open>ValueError\<close> of \<^verbatim>\<open>_validate_config\<close> (the \<^verbatim>\<open>KeyError\<close> of the subscript when the
  configuration has no settings at all), the world is the one it started in, and so no
  request has been sent.
\<close>

theorem init_refuses_missing_setting:
  assumes "config_files w config_path = Some cfg"
    and "key \<in> set required_settings"
    and "\<not> has_setting cfg key"
  shows "init config_path w =
           (Inl (if cfg_settings cfg = None then KeyError ''settings''
                 else ValueError missing_settings_message), w)
         \<and> requests (snd (init config_path w)) = requests w"
  using assms by (simp add: init_def load_config_def validate_config_missing)

theorem init_refuses_missing_setting_witness:
  "init ''invalid_config.yaml'' (quiet_world [''invalid_config.yaml'' \<mapsto> invalid_config] (\<lambda>u f n. Failed))
     = (Inl (ValueError missing_settings_message),
        quiet_world [''invalid_config.yaml'' \<mapsto> invalid_config] (\<lambda>u f n. Failed))
   \<and> requests (snd (init ''invalid_config.yaml''
        (quiet_world [''invalid_config.yaml'' \<mapsto> invalid_config] (\<lambda>u f n. Failed)))) = []"
  using init_refuses_missing_setting
    [of "quiet_world [''invalid_config.yaml'' \<mapsto> invalid_config] (\<lambda>u f n. Failed)"
        "''invalid_config.yaml''" invalid_config "''download_directory''"]
  by (simp add: quiet_world_def invalid_config_def has_setting_def required_settings_def)

subsection \<open>The reader\<close>






subsection \<open>The loader\<close>






subsection \<open>The merge statement\<close>

lemma parse_joins_no_join: "parse_joins (T_RPAREN # ts) = ([], T_RPAREN # ts)"
  by (subst parse_joins.simps) (simp add: parse_join_def)

lemma parse_joins_clauses:
  "parse_joins (concat (map (join_clause pk) rest) @ T_RPAREN # ts) = (map (\<lambda>t. (t, pk)) rest, T_RPAREN # ts)"
proof (induction rest)
  case Nil
  show ?case by (simp add: parse_joins_no_join)
next
  case (Cons t rest)
  show ?case
    by (subst parse_joins.simps) (simp add: parse_join_def join_clause_def Cons.IH)
qed

lemma parse_select_empty: "parse_select [] = None"
  by (simp add: parse_select_def)

lemma merge_query_not_parsed: "merge_query m tabs pk = Inr q \<Longrightarrow> parse_statement q = None"
  by (cases tabs)
     (auto simp: merge_query_def parse_statement_def parse_query_def parse_select_def
        parse_joins_clauses parse_select_empty)

lemma merge_query_completed:
  "merge_query m tabs pk = Inr q \<Longrightarrow>
   parse_statement (q @ [T_SELECT, T_STAR, T_FROM, Ident ''incremental_join'']) \<noteq> None"
  by (cases tabs)
     (auto simp: merge_query_def parse_statement_def parse_query_def parse_select_def
        parse_joins_clauses parse_joins.simps [of "[]"] parse_join_def)

lemma execute_merge_query:
  "merge_query m tabs pk = Inr q \<Longrightarrow> execute_query q w = (Inl ParserException, w)"
  by (simp add: execute_query_def merge_query_not_parsed)


lemma merge_query_nonempty: "tabs \<noteq> [] \<Longrightarrow> \<exists>q. merge_query m tabs pk = Inr q"
  by (cases tabs) (simp_all add: merge_query_def)

lemma merge_try_parser:
  assumes "cfg_sources (config p) = Some sources" "sources \<noteq> []"
    and "process_sources fuel p sources w = Some (Inr (), w1)"
    and "setting (config p) ''primary_join_key'' = Inr pk"
  shows "merge_try fuel p w = Some (Inl ParserException, drop_table_if_exists ''merged_data'' w1)"
proof -
  from assms(2) obtain q where q: "merge_query ''merged_data'' (map src_name sources) (yaml_str pk) = Inr q"
    using merge_query_nonempty [of "map src_name sources"] by auto
  show ?thesis
    using assms q by (simp add: merge_try_def Let_def execute_merge_query)
qed

lemma cleanup_total: "\<exists>r w'. cleanup p w = (r, w')"
  by (cases "cleanup p w") simp


subsection \<open>Evaluating concrete runs\<close>



subsection \<open>A source with no record\<close>










end
